theory Spec2Isabelle
  imports Complex_Main
begin

section \<open>Trajectory store: class DataBuffers (ppo_agent.py)\<close>

text \<open>
  A transition is the tuple built in \<^verbatim>\<open>PPOAgent.step\<close>:
  \<^verbatim>\<open>(state, action, reward, next_state, action_logprobs.item(), done)\<close>.
  Floats are modelled as reals, Python integers as \<open>int\<close>. The one float for which the
  model keeps nan apart is the loss of a gradient step (type \<open>float\<close> below).
\<close>

type_synonym transition = "real list \<times> int \<times> real \<times> real list \<times> real \<times> bool"

text \<open>
  \<^verbatim>\<open>self.memory\<close> is a Python dict from handle to list of transitions. It is modelled as
  an association list with distinct keys in insertion order; \<open>dict_get\<close> is
  \<^verbatim>\<open>dict.get(key, default)\<close> and \<open>dict_update\<close> is \<^verbatim>\<open>dict.update({key: value})\<close>.
\<close>

type_synonym DataBuffers = "(int \<times> transition list) list"

fun dict_get :: "('k \<times> 'v) list \<Rightarrow> 'k \<Rightarrow> 'v \<Rightarrow> 'v" where
  "dict_get [] k d = d"
| "dict_get ((k', v') # kvs) k d = (if k' = k then v' else dict_get kvs k d)"

fun dict_update :: "'k \<Rightarrow> 'v \<Rightarrow> ('k \<times> 'v) list \<Rightarrow> ('k \<times> 'v) list" where
  "dict_update k v [] = [(k, v)]"
| "dict_update k v ((k', v') # kvs) =
     (if k' = k then (k', v) # kvs else (k', v') # dict_update k v kvs)"

definition DataBuffers_len :: "DataBuffers \<Rightarrow> nat" where
  "DataBuffers_len memory = length memory"

definition DataBuffers_reset :: "DataBuffers" where
  "DataBuffers_reset = []"

definition get_transitions :: "DataBuffers \<Rightarrow> int \<Rightarrow> transition list" where
  "get_transitions memory handle = dict_get memory handle []"

definition push_transition :: "DataBuffers \<Rightarrow> int \<Rightarrow> transition \<Rightarrow> DataBuffers" where
  "push_transition memory handle transition =
     (let transitions = get_transitions memory handle;
          transitions = transitions @ [transition]
      in dict_update handle transitions memory)"

section \<open>Discounted returns: the loop of \<^verbatim>\<open>_convert_transitions_to_torch_tensors\<close>\<close>

text \<open>
  The six Python lists and the running \<^verbatim>\<open>discounted_reward\<close> are the loop state.
  \<^verbatim>\<open>xs.insert(0, x)\<close> is \<open>x # xs\<close>; the loop runs over \<^verbatim>\<open>transitions_array[::-1]\<close>.
\<close>

record loop_state =
  state_list :: "real list list"
  action_list :: "int list"
  reward_list :: "real list"
  state_next_list :: "real list list"
  prob_a_list :: "real list"
  done_list :: "int list"
  discounted_reward :: real

definition loop_init :: loop_state where
  "loop_init = \<lparr>state_list = [], action_list = [], reward_list = [], state_next_list = [],
                 prob_a_list = [], done_list = [], discounted_reward = 0\<rparr>"

fun loop_body :: "real \<Rightarrow> loop_state \<Rightarrow> transition \<Rightarrow> loop_state" where
  "loop_body gamma st (state_i, action_i, reward_i, state_next_i, prob_action_i, done_i) =
     (let st = st\<lparr>state_list := state_i # state_list st\<rparr>;
          st = st\<lparr>action_list := action_i # action_list st\<rparr>;
          st = (if done_i
                then st\<lparr>discounted_reward := 0, done_list := 1 # done_list st\<rparr>
                else st\<lparr>discounted_reward := reward_i + gamma * discounted_reward st,
                        done_list := 0 # done_list st\<rparr>);
          st = st\<lparr>reward_list := discounted_reward st # reward_list st\<rparr>;
          st = st\<lparr>state_next_list := state_next_i # state_next_list st\<rparr>;
          st = st\<lparr>prob_a_list := prob_action_i # prob_a_list st\<rparr>
      in st)"

definition convert_transitions_to_torch_tensors :: "real \<Rightarrow> transition list \<Rightarrow> loop_state" where
  "convert_transitions_to_torch_tensors gamma transitions_array =
     foldl (loop_body gamma) loop_init (rev transitions_array)"

text \<open>The discounted returns aligned with the transitions, before standardisation.\<close>

definition discounted_returns :: "real \<Rightarrow> transition list \<Rightarrow> real list" where
  "discounted_returns gamma transitions_array =
     reward_list (convert_transitions_to_torch_tensors gamma transitions_array)"

definition reward_of :: "transition \<Rightarrow> real" where
  "reward_of t = (case t of (s, a, r, s', p, d) \<Rightarrow> r)"

definition done_of :: "transition \<Rightarrow> bool" where
  "done_of t = (case t of (s, a, r, s', p, d) \<Rightarrow> d)"

section \<open>The torch library and the file system\<close>

text \<open>
  \<^verbatim>\<open>torch.save(v, path)\<close> pickles the value \<open>v\<close> into the file \<open>path\<close>;
  \<^verbatim>\<open>torch.load(path)\<close> returns the pickled value or raises when the file holds no pickle.
  A file system is a map from paths to files, the console a list of printed lines.
\<close>

datatype 'v file_content = Pickle 'v | Corrupt

type_synonym 'v filesystem = "string \<rightharpoonup> 'v file_content"

definition torch_save :: "'v \<Rightarrow> string \<Rightarrow> 'v filesystem \<Rightarrow> 'v filesystem" where
  "torch_save v path fs = fs(path \<mapsto> Pickle v)"

fun torch_load :: "'v file_content \<Rightarrow> 'v option" where
  "torch_load (Pickle v) = Some v"
| "torch_load Corrupt = None"

text \<open>
  \<^verbatim>\<open>obj.load_state_dict(v)\<close> belongs to torch and is a parameter of the model. It mutates
  \<open>obj\<close> in place and either returns or raises; both outcomes carry the object as the call
  left it.
\<close>

datatype 'o outcome = Returned 'o | Raised 'o

fun the_state :: "'o outcome \<Rightarrow> 'o" where
  "the_state (Returned obj) = obj"
| "the_state (Raised obj) = obj"

datatype float = Float real | Nan

text \<open>
  torch's \<^verbatim>\<open>nn.Module.load_state_dict\<close> (strict), on a module reduced to its named
  parameters, a parameter to a flat list of numbers and its shape to the length: every
  parameter whose key is in the state dict with the same shape is overwritten, then the
  call raises if a key was missing, had another shape or was unexpected.
\<close>

type_synonym state_dict = "(string \<times> real list) list"

definition entry_matches :: "state_dict \<Rightarrow> string \<times> real list \<Rightarrow> bool" where
  "entry_matches v e =
     (case map_of v (fst e) of None \<Rightarrow> False | Some q \<Rightarrow> length q = length (snd e))"

definition Module_load_state_dict :: "state_dict \<Rightarrow> state_dict \<Rightarrow> state_dict outcome" where
  "Module_load_state_dict obj v =
     (let obj' = map (\<lambda>e. case map_of v (fst e) of
                               None \<Rightarrow> e
                             | Some q \<Rightarrow> if length q = length (snd e) then (fst e, q) else e) obj
      in if list_all (entry_matches v) obj \<and> list_all (\<lambda>e. fst e \<in> set (map fst obj)) v
         then Returned obj' else Raised obj')"

section \<open>class ActorCriticModel (ppo_agent.py)\<close>

record 'net ActorCriticModel =
  actor :: 'net
  critic :: 'net

datatype Categorical = Categorical (probs: "real list")

text \<open>\<open>forward\<close> is the forward pass of an \<^verbatim>\<open>nn.Sequential\<close>, a parameter of the model.\<close>

definition get_actor_dist ::
  "('net \<Rightarrow> real list \<Rightarrow> real list) \<Rightarrow> 'net ActorCriticModel \<Rightarrow> real list \<Rightarrow> Categorical" where
  "get_actor_dist forward model state =
     (let action_probs = forward (actor model) state;
          dist = Categorical action_probs
      in dist)"

definition ActorCriticModel_save ::
  "('net \<Rightarrow> 'v) \<Rightarrow> 'v filesystem \<Rightarrow> 'net ActorCriticModel \<Rightarrow> string \<Rightarrow> 'v filesystem" where
  "ActorCriticModel_save state_dict fs model filename =
     (let fs = torch_save (state_dict (actor model)) (filename @ ''.actor'') fs;
          fs = torch_save (state_dict (critic model)) (filename @ ''.value'') fs
      in fs)"

text \<open>
  \<^verbatim>\<open>_load\<close>: \<^verbatim>\<open>os.path.exists\<close> is the lookup in the file system; the bare
  \<^verbatim>\<open>except:\<close> catches whatever \<^verbatim>\<open>torch.load\<close> or \<^verbatim>\<open>load_state_dict\<close> raise. The result
  is the returned \<open>obj\<close> and the console.
\<close>

definition ActorCriticModel__load ::
  "('o \<Rightarrow> 'v \<Rightarrow> 'o outcome) \<Rightarrow> 'v filesystem \<Rightarrow> string list \<Rightarrow> 'o \<Rightarrow> string \<Rightarrow> 'o \<times> string list" where
  "ActorCriticModel__load load_state_dict fs out obj filename =
     (case fs filename of
        None \<Rightarrow> (obj, out)
      | Some f \<Rightarrow>
          (let out = out @ ['' >>  '' @ filename]
           in case torch_load f of
                None \<Rightarrow> (obj, out @ ['' >> failed!''])
              | Some v \<Rightarrow>
                  (case load_state_dict obj v of
                     Returned obj' \<Rightarrow> (obj', out)
                   | Raised obj' \<Rightarrow> (obj', out @ ['' >> failed!'']))))"

definition ActorCriticModel_load ::
  "('net \<Rightarrow> 'v \<Rightarrow> 'net outcome) \<Rightarrow> 'v filesystem \<Rightarrow> string list \<Rightarrow> 'net ActorCriticModel \<Rightarrow> string
     \<Rightarrow> 'net ActorCriticModel \<times> string list" where
  "ActorCriticModel_load load_state_dict fs out model filename =
     (let out = out @ [''load policy from file '' @ filename];
          (a, out) = ActorCriticModel__load load_state_dict fs out (actor model) (filename @ ''.actor'');
          model = model\<lparr>actor := a\<rparr>;
          (c, out) = ActorCriticModel__load load_state_dict fs out (critic model) (filename @ ''.critic'');
          model = model\<lparr>critic := c\<rparr>
      in (model, out))"

section \<open>class PPOAgent (ppo_agent.py)\<close>

record ('net, 'opt) PPOAgent =
  learning_rate :: real
  gamma :: real
  surrogate_eps_clip :: real
  K_epoch :: nat
  weight_loss :: real
  weight_entropy :: real
  memory :: DataBuffers
  loss :: float
  actor_critic_model :: "'net ActorCriticModel"
  optimizer :: 'opt

text \<open>
  \<^verbatim>\<open>__init__\<close>, given the freshly initialised networks and optimizer (torch draws the
  initial weights at random).
\<close>

definition PPOAgent_init :: "'net ActorCriticModel \<Rightarrow> 'opt \<Rightarrow> ('net, 'opt) PPOAgent" where
  "PPOAgent_init model opt =
     \<lparr>learning_rate = 1 / 100000, gamma = 99 / 100, surrogate_eps_clip = 2 / 10, K_epoch = 30,
      weight_loss = 1, weight_entropy = 1 / 100, memory = DataBuffers_reset, loss = Float 0,
      actor_critic_model = model, optimizer = opt\<rparr>"

text \<open>
  \<^verbatim>\<open>act(state, eps=None)\<close>. \<open>sample\<close> is \<^verbatim>\<open>dist.sample()\<close>: it draws from the distribution
  with the random generator \<open>rng\<close> and returns the generator's next state.
\<close>

definition PPOAgent_act ::
  "('net \<Rightarrow> real list \<Rightarrow> real list) \<Rightarrow> (Categorical \<Rightarrow> 'rng \<Rightarrow> int \<times> 'rng)
     \<Rightarrow> ('net, 'opt) PPOAgent \<Rightarrow> real list \<Rightarrow> real option \<Rightarrow> 'rng \<Rightarrow> int \<times> 'rng" where
  "PPOAgent_act forward sample agent state eps rng =
     (let torch_state = state;
          dist = get_actor_dist forward (actor_critic_model agent) torch_state;
          (action, rng) = sample dist rng
      in (action, rng))"

text \<open>\<^verbatim>\<open>step\<close>; \<open>log_prob\<close> is \<^verbatim>\<open>dist.log_prob\<close>.\<close>

definition PPOAgent_step ::
  "('net \<Rightarrow> real list \<Rightarrow> real list) \<Rightarrow> (Categorical \<Rightarrow> int \<Rightarrow> real) \<Rightarrow> ('net, 'opt) PPOAgent
     \<Rightarrow> int \<Rightarrow> real list \<Rightarrow> int \<Rightarrow> real \<Rightarrow> real list \<Rightarrow> bool \<Rightarrow> ('net, 'opt) PPOAgent" where
  "PPOAgent_step forward log_prob agent handle state action reward next_state done =
     (let torch_action = action;
          torch_state = state;
          dist = get_actor_dist forward (actor_critic_model agent) torch_state;
          action_logprobs = log_prob dist torch_action;
          transition = (state, action, reward, next_state, action_logprobs, done)
      in agent\<lparr>memory := push_transition (memory agent) handle transition\<rparr>)"

text \<open>
  \<^verbatim>\<open>train_net\<close>. The numeric part of one pass over a handle's history (the tensor
  conversion, standardising the returns, evaluating the networks, the clipped surrogate
  loss, one Adam step) is the parameter \<open>gradient_step\<close>. From the converted lists, the
  model and the optimizer it either returns the updated model and optimizer and the mean
  loss, or it raises, with model and optimizer as they stood then; \<^verbatim>\<open>self.loss\<close> is
  assigned last, so a raise leaves it as it was. \<^verbatim>\<open>train_net\<close> catches nothing: a raise
  ends the loops and leaves the method before \<^verbatim>\<open>self.memory.reset()\<close>.
\<close>

datatype ('net, 'opt) step_result =
  Stepped "'net ActorCriticModel" 'opt float
| Step_Raised "'net ActorCriticModel" 'opt

definition optimize_handle ::
  "(loop_state \<Rightarrow> 'net ActorCriticModel \<Rightarrow> 'opt \<Rightarrow> ('net, 'opt) step_result)
     \<Rightarrow> ('net, 'opt) PPOAgent \<Rightarrow> int \<Rightarrow> ('net, 'opt) PPOAgent outcome" where
  "optimize_handle gradient_step agent handle =
     (let agent_episode_history = get_transitions (memory agent) handle
      in if length agent_episode_history > 0
         then (let tensors = convert_transitions_to_torch_tensors (gamma agent) agent_episode_history
               in case gradient_step tensors (actor_critic_model agent) (optimizer agent) of
                    Stepped model opt l \<Rightarrow>
                      Returned (agent\<lparr>actor_critic_model := model, optimizer := opt, loss := l\<rparr>)
                  | Step_Raised model opt \<Rightarrow>
                      Raised (agent\<lparr>actor_critic_model := model, optimizer := opt\<rparr>))
         else Returned agent)"

text \<open>The loop over the handles of one epoch; it ends at the first raise.\<close>

fun for_handles ::
  "(loop_state \<Rightarrow> 'net ActorCriticModel \<Rightarrow> 'opt \<Rightarrow> ('net, 'opt) step_result)
     \<Rightarrow> ('net, 'opt) PPOAgent \<Rightarrow> int list \<Rightarrow> ('net, 'opt) PPOAgent outcome" where
  "for_handles gradient_step agent [] = Returned agent"
| "for_handles gradient_step agent (handle # handles) =
     (case optimize_handle gradient_step agent handle of
        Returned agent' \<Rightarrow> for_handles gradient_step agent' handles
      | Raised agent' \<Rightarrow> Raised agent')"

definition epoch ::
  "(loop_state \<Rightarrow> 'net ActorCriticModel \<Rightarrow> 'opt \<Rightarrow> ('net, 'opt) step_result)
     \<Rightarrow> ('net, 'opt) PPOAgent \<Rightarrow> ('net, 'opt) PPOAgent outcome" where
  "epoch gradient_step agent =
     for_handles gradient_step agent (map int [0..<DataBuffers_len (memory agent)])"

text \<open>The loop \<^verbatim>\<open>for _ in range(self.K_epoch)\<close>; it ends at the first raise.\<close>

fun for_epochs ::
  "(loop_state \<Rightarrow> 'net ActorCriticModel \<Rightarrow> 'opt \<Rightarrow> ('net, 'opt) step_result)
     \<Rightarrow> ('net, 'opt) PPOAgent \<Rightarrow> nat list \<Rightarrow> ('net, 'opt) PPOAgent outcome" where
  "for_epochs gradient_step agent [] = Returned agent"
| "for_epochs gradient_step agent (_ # epochs) =
     (case epoch gradient_step agent of
        Returned agent' \<Rightarrow> for_epochs gradient_step agent' epochs
      | Raised agent' \<Rightarrow> Raised agent')"

definition train_net ::
  "(loop_state \<Rightarrow> 'net ActorCriticModel \<Rightarrow> 'opt \<Rightarrow> ('net, 'opt) step_result)
     \<Rightarrow> ('net, 'opt) PPOAgent \<Rightarrow> ('net, 'opt) PPOAgent outcome" where
  "train_net gradient_step agent =
     (case for_epochs gradient_step agent [0..<K_epoch agent] of
        Returned agent' \<Rightarrow> Returned (agent'\<lparr>memory := DataBuffers_reset\<rparr>)
      | Raised agent' \<Rightarrow> Raised agent')"

definition end_episode ::
  "(loop_state \<Rightarrow> 'net ActorCriticModel \<Rightarrow> 'opt \<Rightarrow> ('net, 'opt) step_result)
     \<Rightarrow> ('net, 'opt) PPOAgent \<Rightarrow> bool \<Rightarrow> ('net, 'opt) PPOAgent outcome" where
  "end_episode gradient_step agent train =
     (if train then train_net gradient_step agent else Returned agent)"


definition PPOAgent_save ::
  "('net \<Rightarrow> 'v) \<Rightarrow> ('opt \<Rightarrow> 'v) \<Rightarrow> 'v filesystem \<Rightarrow> ('net, 'opt) PPOAgent \<Rightarrow> string \<Rightarrow> 'v filesystem" where
  "PPOAgent_save state_dict opt_state_dict fs agent filename =
     (let fs = ActorCriticModel_save state_dict fs (actor_critic_model agent) filename;
          fs = torch_save (opt_state_dict (optimizer agent)) (filename @ ''.optimizer'') fs
      in fs)"

definition PPOAgent__load ::
  "('o \<Rightarrow> 'v \<Rightarrow> 'o outcome) \<Rightarrow> 'v filesystem \<Rightarrow> string list \<Rightarrow> 'o \<Rightarrow> string \<Rightarrow> 'o \<times> string list" where
  "PPOAgent__load load_state_dict fs out obj filename =
     (case fs filename of
        None \<Rightarrow> (obj, out)
      | Some f \<Rightarrow>
          (let out = out @ ['' >>  '' @ filename]
           in case torch_load f of
                None \<Rightarrow> (obj, out @ ['' >> failed!''])
              | Some v \<Rightarrow>
                  (case load_state_dict obj v of
                     Returned obj' \<Rightarrow> (obj', out)
                   | Raised obj' \<Rightarrow> (obj', out @ ['' >> failed!'']))))"

definition PPOAgent_load ::
  "('net \<Rightarrow> 'v \<Rightarrow> 'net outcome) \<Rightarrow> ('opt \<Rightarrow> 'v \<Rightarrow> 'opt outcome) \<Rightarrow> 'v filesystem \<Rightarrow> string list
     \<Rightarrow> ('net, 'opt) PPOAgent \<Rightarrow> string \<Rightarrow> ('net, 'opt) PPOAgent \<times> string list" where
  "PPOAgent_load load_state_dict opt_load_state_dict fs out agent filename =
     (let out = out @ [''load policy from file '' @ filename];
          (model, out) = ActorCriticModel_load load_state_dict fs out (actor_critic_model agent) filename;
          agent = agent\<lparr>actor_critic_model := model\<rparr>;
          out = out @ [''load optimizer from file '' @ filename];
          (opt, out) = PPOAgent__load opt_load_state_dict fs out (optimizer agent) (filename @ ''.optimizer'');
          agent = agent\<lparr>optimizer := opt\<rparr>
      in (agent, out))"

section \<open>class MultiPolicy (multi_policy.py)\<close>

text \<open>
  The two sub-policies are the classes \<^verbatim>\<open>DeadLockAvoidanceAgent\<close> and
  \<^verbatim>\<open>reinforcement_learning.ppo.ppo_agent.PPOAgent\<close>; their methods are parameters of the
  model. A method called for its value, as \<^verbatim>\<open>act\<close>, takes the sub-policy object and
  returns the value with the object as the call left it.
\<close>

record ('adv, 'ppo) MultiPolicy =
  state_size :: nat
  action_size :: nat
  mp_memory :: "transition list"
  mp_loss :: real
  deadlock_avoidance_policy :: 'adv
  ppo_policy :: 'ppo

text \<open>
  The loop \<^verbatim>\<open>for action_itr in np.arange(self.action_size)\<close> that appends
  \<^verbatim>\<open>int(action_extra_state == action_itr)\<close> to a copy of the state.
\<close>

definition extend_state :: "nat \<Rightarrow> int \<Rightarrow> real list \<Rightarrow> real list" where
  "extend_state n action_extra_state state =
     foldl (\<lambda>extended_state action_itr.
              extended_state @ [if action_extra_state = action_itr then 1 else 0])
       state (map int [0..<n])"

definition MultiPolicy_act ::
  "('adv \<Rightarrow> int \<Rightarrow> real list \<Rightarrow> real \<Rightarrow> int \<times> 'adv) \<Rightarrow> ('ppo \<Rightarrow> int \<Rightarrow> real list \<Rightarrow> real \<Rightarrow> int \<times> 'ppo)
     \<Rightarrow> ('ppo \<Rightarrow> real) \<Rightarrow> ('adv, 'ppo) MultiPolicy \<Rightarrow> int \<Rightarrow> real list \<Rightarrow> real
     \<Rightarrow> int \<times> ('adv, 'ppo) MultiPolicy" where
  "MultiPolicy_act adv_act ppo_act ppo_loss mp handle state eps =
     (let (action_extra_state, adv) = adv_act (deadlock_avoidance_policy mp) handle state 0;
          mp = mp\<lparr>deadlock_avoidance_policy := adv\<rparr>;
          extended_state = extend_state (action_size mp) action_extra_state state;
          (action_ppo, ppo) = ppo_act (ppo_policy mp) handle extended_state eps;
          mp = mp\<lparr>ppo_policy := ppo\<rparr>;
          mp = mp\<lparr>mp_loss := ppo_loss (ppo_policy mp)\<rparr>
      in (action_ppo, mp))"

text \<open>
  The broadcast methods only call the same method on the two sub-policies. \<open>invoke\<close> is the
  effect of one such call on the program state \<open>'w\<close> (the two objects and what they reach:
  files, console, environment).
\<close>

datatype sub_policy = Deadlock_Avoidance_Policy | Ppo_Policy

datatype method_call = Load string | Save string | Reset | Test | Start_Step bool | End_Step bool

definition MultiPolicy_load :: "(sub_policy \<Rightarrow> method_call \<Rightarrow> 'w \<Rightarrow> 'w) \<Rightarrow> string \<Rightarrow> 'w \<Rightarrow> 'w" where
  "MultiPolicy_load invoke filename w =
     (let w = invoke Ppo_Policy (Load filename) w;
          w = invoke Deadlock_Avoidance_Policy (Load filename) w
      in w)"

definition MultiPolicy_save :: "(sub_policy \<Rightarrow> method_call \<Rightarrow> 'w \<Rightarrow> 'w) \<Rightarrow> string \<Rightarrow> 'w \<Rightarrow> 'w" where
  "MultiPolicy_save invoke filename w =
     (let w = invoke Ppo_Policy (Save filename) w;
          w = invoke Deadlock_Avoidance_Policy (Save filename) w
      in w)"

definition MultiPolicy_reset :: "(sub_policy \<Rightarrow> method_call \<Rightarrow> 'w \<Rightarrow> 'w) \<Rightarrow> 'w \<Rightarrow> 'w" where
  "MultiPolicy_reset invoke w =
     (let w = invoke Ppo_Policy Reset w;
          w = invoke Deadlock_Avoidance_Policy Reset w
      in w)"

definition MultiPolicy_test :: "(sub_policy \<Rightarrow> method_call \<Rightarrow> 'w \<Rightarrow> 'w) \<Rightarrow> 'w \<Rightarrow> 'w" where
  "MultiPolicy_test invoke w =
     (let w = invoke Ppo_Policy Test w;
          w = invoke Deadlock_Avoidance_Policy Test w
      in w)"

definition MultiPolicy_start_step :: "(sub_policy \<Rightarrow> method_call \<Rightarrow> 'w \<Rightarrow> 'w) \<Rightarrow> bool \<Rightarrow> 'w \<Rightarrow> 'w" where
  "MultiPolicy_start_step invoke train w =
     (let w = invoke Deadlock_Avoidance_Policy (Start_Step train) w;
          w = invoke Ppo_Policy (Start_Step train) w
      in w)"

definition MultiPolicy_end_step :: "(sub_policy \<Rightarrow> method_call \<Rightarrow> 'w \<Rightarrow> 'w) \<Rightarrow> bool \<Rightarrow> 'w \<Rightarrow> 'w" where
  "MultiPolicy_end_step invoke train w =
     (let w = invoke Deadlock_Avoidance_Policy (End_Step train) w;
          w = invoke Ppo_Policy (End_Step train) w
      in w)"

text \<open>
  The program state that only records the calls: each invocation appends the sub-policy and
  the method to the list of calls made so far.
\<close>

definition record_call :: "sub_policy \<Rightarrow> method_call \<Rightarrow> (sub_policy \<times> method_call) list
     \<Rightarrow> (sub_policy \<times> method_call) list" where
  "record_call p m calls = calls @ [(p, m)]"

text \<open>
  A gradient step that only counts: the optimizer is the number of steps taken so far.
\<close>

definition counting_step ::
  "loop_state \<Rightarrow> 'net ActorCriticModel \<Rightarrow> nat \<Rightarrow> ('net, nat) step_result" where
  "counting_step tensors model n = Stepped model (Suc n) (Float 0)"

section \<open>Properties of the discounted returns\<close>

lemma foldl_loop_body_snoc:
  "foldl (loop_body g) st (ts @ [t]) = loop_body g (foldl (loop_body g) st ts) t"
  by simp

lemma convert_Cons:
  "convert_transitions_to_torch_tensors g (t # ts) =
     loop_body g (convert_transitions_to_torch_tensors g ts) t"
  by (simp add: convert_transitions_to_torch_tensors_def)

lemma discounted_reward_is_head:
  "discounted_reward (convert_transitions_to_torch_tensors g ts) =
     (case discounted_returns g ts of [] \<Rightarrow> 0 | x # _ \<Rightarrow> x)"
proof (cases ts)
  case Nil
  then show ?thesis
    by (simp add: discounted_returns_def convert_transitions_to_torch_tensors_def loop_init_def)
next
  case (Cons t ts')
  obtain s a r s' p d where t: "t = (s, a, r, s', p, d)"
    by (cases t) auto
  show ?thesis
    unfolding discounted_returns_def Cons convert_Cons t
    by (simp add: Let_def)
qed

text \<open>
  The recurrence the loop computes, read in chronological order: a step with the done flag
  gets the return 0, any other step gets its reward plus \<open>g\<close> times the return of the step
  after it (0 after the last step). Here \<open>g\<close> is the discount \<^verbatim>\<open>self.gamma\<close>.
\<close>

lemma discounted_returns_Nil: "discounted_returns g [] = []"
  by (simp add: discounted_returns_def convert_transitions_to_torch_tensors_def loop_init_def)

lemma discounted_returns_Cons:
  "discounted_returns g ((s, a, r, s', p, d) # ts) =
     (if d then 0
      else r + g * (case discounted_returns g ts of [] \<Rightarrow> 0 | x # _ \<Rightarrow> x))
     # discounted_returns g ts"
  using discounted_reward_is_head [of g ts]
  by (simp add: discounted_returns_def convert_Cons Let_def)

lemma length_discounted_returns: "length (discounted_returns g ts) = length ts"
proof (induction ts)
  case Nil
  show ?case by (simp add: discounted_returns_Nil)
next
  case (Cons t ts)
  obtain s a r s' p d where "t = (s, a, r, s', p, d)"
    by (cases t) auto
  with Cons show ?case by (simp add: discounted_returns_Cons)
qed

lemma head_discounted_returns:
  "(case discounted_returns g ts of [] \<Rightarrow> 0 | x # _ \<Rightarrow> x)
     = (if ts = [] then 0 else discounted_returns g ts ! 0)"
proof (cases ts)
  case Nil
  then show ?thesis by (simp add: discounted_returns_Nil)
next
  case (Cons t ts')
  obtain s a r s' p d where "t = (s, a, r, s', p, d)"
    by (cases t) auto
  with Cons show ?thesis by (simp add: discounted_returns_Cons)
qed

lemma discounted_returns_segment:
  assumes "i \<le> j" and "j \<le> length ts" and "i < length ts"
    and "\<forall>k. i \<le> k \<and> k < j \<longrightarrow> \<not> done_of (ts ! k)"
    and "j < length ts \<longrightarrow> done_of (ts ! j)"
  shows "discounted_returns g ts ! i = (\<Sum>k = i..<j. g ^ (k - i) * reward_of (ts ! k))"
  using assms
proof (induction ts arbitrary: i j)
  case Nil
  then show ?case by simp
next
  case (Cons t ts)
  obtain s a r s' p d where t: "t = (s, a, r, s', p, d)"
    by (cases t) auto
  show ?case
  proof (cases i)
    case 0
    show ?thesis
    proof (cases d)
      case True
      have "j = 0"
      proof (rule ccontr)
        assume "j \<noteq> 0"
        then have "\<not> done_of ((t # ts) ! 0)"
          using Cons.prems(4) 0 by auto
        with True t show False by (simp add: done_of_def)
      qed
      with 0 True t show ?thesis by (simp add: discounted_returns_Cons)
    next
      case False
      have "j \<noteq> 0"
      proof
        assume "j = 0"
        then have "done_of ((t # ts) ! 0)"
          using Cons.prems(5) by simp
        with False t show False by (simp add: done_of_def)
      qed
      then obtain j' where j: "j = Suc j'"
        by (cases j) auto
      have hd: "discounted_returns g (t # ts) ! 0
                  = r + g * (if ts = [] then 0 else discounted_returns g ts ! 0)"
        using False t by (simp add: discounted_returns_Cons head_discounted_returns)
      have sum: "(\<Sum>k = 0..<Suc j'. g ^ (k - 0) * reward_of ((t # ts) ! k))
                  = r + g * (\<Sum>k = 0..<j'. g ^ (k - 0) * reward_of (ts ! k))"
        using t by (simp add: sum.atLeast0_lessThan_Suc_shift sum_distrib_left reward_of_def
            algebra_simps del: sum.op_ivl_Suc)
      show ?thesis
      proof (cases "ts = []")
        case True
        with Cons.prems(2) j have "j' = 0" by simp
        with True hd sum 0 j show ?thesis by simp
      next
        case nonempty: False
        have "discounted_returns g ts ! 0 = (\<Sum>k = 0..<j'. g ^ (k - 0) * reward_of (ts ! k))"
        proof (rule Cons.IH)
          show "0 \<le> j'" by simp
          show "j' \<le> length ts" using Cons.prems(2) j by simp
          show "0 < length ts" using nonempty by simp
          show "\<forall>k. 0 \<le> k \<and> k < j' \<longrightarrow> \<not> done_of (ts ! k)"
          proof (intro allI impI)
            fix k assume "0 \<le> k \<and> k < j'"
            then have "\<not> done_of ((t # ts) ! Suc k)"
              using Cons.prems(4) [THEN spec, of "Suc k"] 0 j by simp
            then show "\<not> done_of (ts ! k)" by simp
          qed
          show "j' < length ts \<longrightarrow> done_of (ts ! j')"
            using Cons.prems(5) j by simp
        qed
        with nonempty hd sum 0 j show ?thesis by simp
      qed
    qed
  next
    case (Suc i')
    with Cons.prems(1) obtain j' where j: "j = Suc j'"
      by (cases j) auto
    have "discounted_returns g ts ! i' = (\<Sum>k = i'..<j'. g ^ (k - i') * reward_of (ts ! k))"
    proof (rule Cons.IH)
      show "i' \<le> j'" using Cons.prems(1) Suc j by simp
      show "j' \<le> length ts" using Cons.prems(2) j by simp
      show "i' < length ts" using Cons.prems(3) Suc by simp
      show "\<forall>k. i' \<le> k \<and> k < j' \<longrightarrow> \<not> done_of (ts ! k)"
      proof (intro allI impI)
        fix k assume "i' \<le> k \<and> k < j'"
        then have "\<not> done_of ((t # ts) ! Suc k)"
          using Cons.prems(4) [THEN spec, of "Suc k"] Suc j by simp
        then show "\<not> done_of (ts ! k)" by simp
      qed
      show "j' < length ts \<longrightarrow> done_of (ts ! j')"
        using Cons.prems(5) j by simp
    qed
    moreover have "discounted_returns g (t # ts) ! Suc i' = discounted_returns g ts ! i'"
      using t by (simp add: discounted_returns_Cons)
    moreover have "(\<Sum>k = Suc i'..<Suc j'. g ^ (k - Suc i') * reward_of ((t # ts) ! k))
                     = (\<Sum>k = i'..<j'. g ^ (k - i') * reward_of (ts ! k))"
      by (subst sum.shift_bounds_Suc_ivl) simp
    ultimately show ?thesis
      using Suc j by simp
  qed
qed

lemma discounted_returns_no_done:
  assumes "\<forall>t \<in> set ts. \<not> done_of t" and "i < length ts"
  shows "discounted_returns g ts ! i = (\<Sum>k = i..<length ts. g ^ (k - i) * reward_of (ts ! k))"
  using assms by (intro discounted_returns_segment) auto

lemma discounted_returns_only_last_done:
  assumes "\<forall>t \<in> set ts. \<not> done_of t" and "done_of u" and "i < length ts"
  shows "discounted_returns g (ts @ [u]) ! i
           = (\<Sum>k = i..<length ts. g ^ (k - i) * reward_of ((ts @ [u]) ! k))"
    and "discounted_returns g (ts @ [u]) ! length ts = 0"
proof -
  show "discounted_returns g (ts @ [u]) ! i
           = (\<Sum>k = i..<length ts. g ^ (k - i) * reward_of ((ts @ [u]) ! k))"
    using assms by (intro discounted_returns_segment) (auto simp add: nth_append)
  have "discounted_returns g (ts @ [u]) ! length ts
          = (\<Sum>k = length ts..<length ts. g ^ (k - length ts) * reward_of ((ts @ [u]) ! k))"
    using assms by (intro discounted_returns_segment) (auto simp add: nth_append)
  then show "discounted_returns g (ts @ [u]) ! length ts = 0" by simp
qed

text \<open>
  C1 (as stated) fails: a buffered trajectory that consists of one transition with reward 1
  and \<^verbatim>\<open>done = True\<close>, under the default \<^verbatim>\<open>gamma = 0.99\<close>. The loop gives the transition
  the discounted return 0, not its reward 1.
\<close>

theorem C1_done_return_counterexample:
  "discounted_returns (99 / 100) [([0, 0], 1, 1, [0, 0], - (1 / 2), True)]
     \<noteq> [reward_of ([0, 0], 1, 1, [0, 0], - (1 / 2), True)]"
  by (simp add: discounted_returns_Cons discounted_returns_Nil reward_of_def)

text \<open>
  C1 (amended). A transition with \<^verbatim>\<open>done = True\<close> gets the discounted return 0, whatever
  its reward; and in a trajectory whose only done flag is on the last of its \<open>n\<close> steps, the
  return at a step \<open>i < n - 1\<close> is \<open>\<Sum>k = i..n-2. gamma ^ (k - i) * r\<^sub>k\<close>: the reward of the
  last step is not part of any return.
\<close>

theorem C1_discounted_returns:
  "(i < length ts \<and> done_of (ts ! i) \<longrightarrow> discounted_returns g ts ! i = 0)
   \<and> ((\<forall>t \<in> set us. \<not> done_of t) \<and> done_of u \<and> j < length us \<longrightarrow>
        discounted_returns g (us @ [u]) ! j
          = (\<Sum>k = j..<length us. g ^ (k - j) * reward_of ((us @ [u]) ! k)))"
proof (intro conjI impI)
  assume a: "i < length ts \<and> done_of (ts ! i)"
  have "discounted_returns g ts ! i = (\<Sum>k = i..<i. g ^ (k - i) * reward_of (ts ! k))"
    using a by (intro discounted_returns_segment) auto
  then show "discounted_returns g ts ! i = 0"
    by simp
next
  assume "(\<forall>t \<in> set us. \<not> done_of t) \<and> done_of u \<and> j < length us"
  then show "discounted_returns g (us @ [u]) ! j
          = (\<Sum>k = j..<length us. g ^ (k - j) * reward_of ((us @ [u]) ! k))"
    using discounted_returns_only_last_done(1) [of us u j g] by simp
qed

theorem C1_discounted_returns_witness:
  "(0 :: nat) < length [([0, 0], 1, 1, [0, 0], - (1 / 2), True)]
   \<and> done_of ([([0, 0], 1, 1, [0, 0], - (1 / 2), True)] ! 0)
   \<and> discounted_returns (99 / 100) [([0, 0], 1, 1, [0, 0], - (1 / 2), True)] ! 0 = 0
   \<and> \<not> done_of ([0], 0, 2, [1], 0, False) \<and> \<not> done_of ([1], 1, 3, [2], 0, False)
   \<and> done_of ([2], 0, 5, [3], 0, True)
   \<and> (0 :: nat) < length [([0], 0, 2, [1], 0 :: real, False), ([1], 1, 3, [2], 0, False)]
   \<and> discounted_returns (1 / 2)
        ([([0], 0, 2, [1], 0, False), ([1], 1, 3, [2], 0, False)] @ [([2], 0, 5, [3], 0, True)]) ! 0
      = 7 / 2"
  using C1_discounted_returns
    [where ts = "[([0, 0], 1, 1, [0, 0], - (1 / 2), True)]" and i = 0 and g = "99 / 100"]
    C1_discounted_returns
    [where us = "[([0], 0, 2, [1], 0, False), ([1], 1, 3, [2], 0, False)]"
       and u = "([2], 0, 5, [3], 0, True)" and j = 0 and g = "1 / 2"]
  by (simp add: done_of_def reward_of_def numeral_2_eq_2)

section \<open>Training pass and episode end\<close>

lemma memory_step:
  "memory (PPOAgent_step forward log_prob agent handle s a r s' d) =
     push_transition (memory agent) handle
       (s, a, r, s', log_prob (get_actor_dist forward (actor_critic_model agent) s) a, d)"
  by (simp add: PPOAgent_step_def Let_def)







text \<open>A training pass in which no gradient step raises returns.\<close>

lemma for_handles_returns:
  assumes "\<forall>tensors model opt. \<exists>model' opt' l. gradient_step tensors model opt = Stepped model' opt' l"
  shows "\<exists>agent'. for_handles gradient_step agent hs = Returned agent'"
proof (induction hs arbitrary: agent)
  case Nil
  show ?case by simp
next
  case (Cons h hs)
  have "\<exists>agent'. optimize_handle gradient_step agent h = Returned agent'"
  proof (cases "length (get_transitions (memory agent) h) > 0")
    case True
    obtain model' opt' l where
      "gradient_step
         (convert_transitions_to_torch_tensors (gamma agent) (get_transitions (memory agent) h))
         (actor_critic_model agent) (optimizer agent) = Stepped model' opt' l"
      using assms by blast
    with True show ?thesis by (simp add: optimize_handle_def Let_def)
  next
    case False
    then show ?thesis by (simp add: optimize_handle_def Let_def)
  qed
  then obtain agent' where "optimize_handle gradient_step agent h = Returned agent'" ..
  with Cons.IH [of agent'] show ?case by simp
qed

lemma for_epochs_returns:
  assumes "\<forall>tensors model opt. \<exists>model' opt' l. gradient_step tensors model opt = Stepped model' opt' l"
  shows "\<exists>agent'. for_epochs gradient_step agent es = Returned agent'"
proof (induction es arbitrary: agent)
  case Nil
  show ?case by simp
next
  case (Cons e es)
  obtain agent' where "epoch gradient_step agent = Returned agent'"
    using for_handles_returns [OF assms] unfolding epoch_def by blast
  with Cons.IH [of agent'] show ?case by simp
qed

lemma train_net_returns:
  assumes "\<forall>tensors model opt. \<exists>model' opt' l. gradient_step tensors model opt = Stepped model' opt' l"
  shows "\<exists>agent'. train_net gradient_step agent = Returned agent'"
proof -
  obtain agent' where "for_epochs gradient_step agent [0..<K_epoch agent] = Returned agent'"
    using for_epochs_returns [OF assms] by blast
  then show ?thesis by (simp add: train_net_def)
qed

lemma epoch_single_nonzero_handle:
  assumes "memory agent = [(h, ts)]" and "h \<noteq> 0"
  shows "epoch gradient_step agent = Returned agent"
  using assms
  by (simp add: epoch_def DataBuffers_len_def optimize_handle_def get_transitions_def)

lemma for_epochs_fixpoint:
  "epoch gradient_step agent = Returned agent \<Longrightarrow> for_epochs gradient_step agent es = Returned agent"
  by (induction es) simp_all

lemma train_net_single_nonzero_handle:
  assumes "memory agent = [(h, ts)]" and "h \<noteq> 0"
  shows "train_net gradient_step agent = Returned (agent\<lparr>memory := DataBuffers_reset\<rparr>)"
  using for_epochs_fixpoint [OF epoch_single_nonzero_handle [OF assms, of gradient_step]]
  by (simp add: train_net_def)

text \<open>
  C3 (code). An episode in which the only call of \<^verbatim>\<open>step\<close> is for handle 5: the store then
  holds one transition for handle 5, yet \<^verbatim>\<open>end_episode(True)\<close> returns without having taken
  a gradient step, whatever the gradient step is: model, optimizer and loss are those from
  before, and the transition is discarded by the final reset. \<^verbatim>\<open>range(len(self.memory))\<close>
  is \<open>[0]\<close> and handle 0 has no transitions.
\<close>

theorem C3_noncontiguous_handle_never_optimized:
  "get_transitions
     (memory (PPOAgent_step forward log_prob (agent\<lparr>memory := DataBuffers_reset\<rparr>) 5 s a r s' d)) 5
     = [(s, a, r, s', log_prob (get_actor_dist forward (actor_critic_model agent) s) a, d)]
   \<and> end_episode gradient_step
       (PPOAgent_step forward log_prob (agent\<lparr>memory := DataBuffers_reset\<rparr>) 5 s a r s' d) True
     = Returned (agent\<lparr>memory := DataBuffers_reset\<rparr>)"
proof -
  let ?t = "(s, a, r, s', log_prob (get_actor_dist forward (actor_critic_model agent) s) a, d)"
  let ?agent = "PPOAgent_step forward log_prob (agent\<lparr>memory := DataBuffers_reset\<rparr>) 5 s a r s' d"
  have m: "memory ?agent = [(5, [?t])]"
    by (simp add: memory_step push_transition_def get_transitions_def DataBuffers_reset_def)
  have "train_net gradient_step ?agent = Returned (?agent\<lparr>memory := DataBuffers_reset\<rparr>)"
    by (rule train_net_single_nonzero_handle [OF m]) simp
  also have "?agent\<lparr>memory := DataBuffers_reset\<rparr> = agent\<lparr>memory := DataBuffers_reset\<rparr>"
    by (simp add: PPOAgent_step_def Let_def)
  finally show ?thesis
    using m by (simp add: end_episode_def get_transitions_def)
qed




text \<open>
  With the handles 0 and 1 in the store, both with transitions, one epoch takes two gradient
  steps and a training pass takes \<open>2 * K_epoch\<close> of them.
\<close>

lemma epoch_two_handles:
  assumes "memory agent = [(0, ts0), (1, ts1)]" and "ts0 \<noteq> []" and "ts1 \<noteq> []"
  shows "epoch counting_step agent
           = Returned (agent\<lparr>optimizer := optimizer agent + 2, loss := Float 0\<rparr>)"
  using assms
  by (simp add: epoch_def DataBuffers_len_def optimize_handle_def get_transitions_def
      counting_step_def Let_def upt_rec numeral_2_eq_2)

lemma epochs_two_handles:
  assumes "memory agent = [(0, ts0), (1, ts1)]" and "ts0 \<noteq> []" and "ts1 \<noteq> []"
  shows "for_epochs counting_step agent es =
           Returned (if es = [] then agent
                     else agent\<lparr>optimizer := optimizer agent + 2 * length es, loss := Float 0\<rparr>)"
  using assms(1)
proof (induction es arbitrary: agent)
  case Nil
  show ?case by simp
next
  case (Cons e es)
  let ?a = "agent\<lparr>optimizer := optimizer agent + 2, loss := Float 0\<rparr>"
  have step: "epoch counting_step agent = Returned ?a"
    by (rule epoch_two_handles [OF Cons.prems assms(2,3)])
  have "memory ?a = [(0, ts0), (1, ts1)]"
    using Cons.prems by simp
  from Cons.IH [OF this] step show ?case
    by simp
qed

lemma train_net_two_handles:
  assumes "memory agent = [(0, ts0), (1, ts1)]" and "ts0 \<noteq> []" and "ts1 \<noteq> []"
  shows "optimizer (the_state (train_net counting_step agent)) = optimizer agent + 2 * K_epoch agent"
  using epochs_two_handles [OF assms, of "[0..<K_epoch agent]"]
  by (simp add: train_net_def)

section \<open>Action selection\<close>

text \<open>
  C9. \<^verbatim>\<open>PPOAgent.act\<close> samples from the categorical distribution of the actor network at
  the state, and two calls that differ only in \<^verbatim>\<open>eps\<close> give the same result.
\<close>

theorem C9_act_ignores_eps:
  "PPOAgent_act forward sample agent state eps1 rng = PPOAgent_act forward sample agent state eps2 rng
   \<and> PPOAgent_act forward sample agent state eps1 rng
       = sample (Categorical (forward (actor (actor_critic_model agent)) state)) rng"
  by (simp add: PPOAgent_act_def get_actor_dist_def Let_def)

section \<open>Checkpoints\<close>

lemma PPOAgent_save_eq:
  "PPOAgent_save sd osd fs agent P =
     fs(P @ ''.actor'' \<mapsto> Pickle (sd (actor (actor_critic_model agent))),
        P @ ''.value'' \<mapsto> Pickle (sd (critic (actor_critic_model agent))),
        P @ ''.optimizer'' \<mapsto> Pickle (osd (optimizer agent)))"
  by (simp add: PPOAgent_save_def ActorCriticModel_save_def torch_save_def Let_def)

lemma load_obj_absent:
  "fs p = None \<Longrightarrow> ActorCriticModel__load lsd fs out obj p = (obj, out)"
  by (simp add: ActorCriticModel__load_def)

lemma load_obj_returned:
  "fs p = Some (Pickle v) \<Longrightarrow> lsd obj v = Returned obj' \<Longrightarrow>
     ActorCriticModel__load lsd fs out obj p = (obj', out @ ['' >>  '' @ p])"
  by (simp add: ActorCriticModel__load_def)

lemma actor_after_ActorCriticModel_load:
  "actor (fst (ActorCriticModel_load lsd fs out model P)) =
     fst (ActorCriticModel__load lsd fs (out @ [''load policy from file '' @ P]) (actor model)
            (P @ ''.actor''))"
  by (simp add: ActorCriticModel_load_def Let_def split: prod.splits)

lemma critic_after_ActorCriticModel_load:
  "critic (fst (ActorCriticModel_load lsd fs out model P)) =
     fst (ActorCriticModel__load lsd fs
            (snd (ActorCriticModel__load lsd fs (out @ [''load policy from file '' @ P]) (actor model)
               (P @ ''.actor'')))
            (critic model) (P @ ''.critic''))"
  by (simp add: ActorCriticModel_load_def Let_def split: prod.splits)

lemma model_after_PPOAgent_load:
  "actor_critic_model (fst (PPOAgent_load lsd olsd fs out agent P)) =
     fst (ActorCriticModel_load lsd fs (out @ [''load policy from file '' @ P])
            (actor_critic_model agent) P)"
  by (simp add: PPOAgent_load_def Let_def split: prod.splits)

text \<open>With none of the three artifacts present, \<^verbatim>\<open>PPOAgent.load\<close> only prints its headers.\<close>

lemma PPOAgent_load_no_files:
  assumes "fs (P @ ''.actor'') = None" "fs (P @ ''.critic'') = None" "fs (P @ ''.optimizer'') = None"
  shows "PPOAgent_load lsd olsd fs out agent P =
           (agent, out @ [''load policy from file '' @ P, ''load policy from file '' @ P,
                          ''load optimizer from file '' @ P])"
  using assms
  by (simp add: PPOAgent_load_def ActorCriticModel_load_def ActorCriticModel__load_def
      PPOAgent__load_def Let_def)

text \<open>
  C2. Save an agent under \<open>P\<close>, then load \<open>P\<close> into a fresh agent. If torch's
  \<^verbatim>\<open>load_state_dict\<close>, given the fresh actor network and the state dict of the saved one,
  returns with the parameters of the saved one, then the loaded agent's action distribution
  is the saved agent's at every state, for every forward pass. The saved file
  \<open>P.actor\<close> is the one that is read back, and no later write of \<^verbatim>\<open>save\<close> touches it.
\<close>

theorem C2_save_load_same_action_distribution:
  assumes "lsd (actor (actor_critic_model fresh)) (sd (actor (actor_critic_model agent)))
             = Returned (actor (actor_critic_model agent))"
  shows "get_actor_dist forward
           (actor_critic_model (fst (PPOAgent_load lsd olsd (PPOAgent_save sd osd fs agent P) out fresh P)))
           state
         = get_actor_dist forward (actor_critic_model agent) state"
proof -
  let ?fs = "PPOAgent_save sd osd fs agent P"
  have saved: "?fs (P @ ''.actor'') = Some (Pickle (sd (actor (actor_critic_model agent))))"
    by (simp add: PPOAgent_save_eq)
  have "actor (actor_critic_model (fst (PPOAgent_load lsd olsd ?fs out fresh P)))
          = actor (actor_critic_model agent)"
    by (simp add: model_after_PPOAgent_load actor_after_ActorCriticModel_load
        load_obj_returned [of ?fs _ _ lsd, OF saved assms])
  then show ?thesis
    by (simp add: get_actor_dist_def)
qed

theorem C2_save_load_same_action_distribution_witness:
  "(\<lambda>obj v. if length v = length obj then Returned v else Raised obj)
      (actor (actor_critic_model
         (PPOAgent_init \<lparr>actor = [1 / 2, 1 / 2 :: real], critic = [0]\<rparr> [0 :: real])))
      ((\<lambda>w. w) (actor (actor_critic_model
         (PPOAgent_init \<lparr>actor = [1 / 4, 3 / 4 :: real], critic = [5]\<rparr> [7 :: real]))))
     = Returned (actor (actor_critic_model
         (PPOAgent_init \<lparr>actor = [1 / 4, 3 / 4 :: real], critic = [5]\<rparr> [7 :: real])))
   \<and> get_actor_dist (\<lambda>w s. map2 (*) w s)
        (actor_critic_model (fst (PPOAgent_load
           (\<lambda>obj v. if length v = length obj then Returned v else Raised obj)
           (\<lambda>obj v. if length v = length obj then Returned v else Raised obj)
           (PPOAgent_save (\<lambda>w. w) (\<lambda>w. w) Map.empty
              (PPOAgent_init \<lparr>actor = [1 / 4, 3 / 4 :: real], critic = [5]\<rparr> [7 :: real]) ''ckpt'')
           []
           (PPOAgent_init \<lparr>actor = [1 / 2, 1 / 2 :: real], critic = [0]\<rparr> [0 :: real])
           ''ckpt'')))
        [1, 1]
      = Categorical [1 / 4, 3 / 4]"
  using C2_save_load_same_action_distribution
    [where lsd = "\<lambda>obj v. if length v = length obj then Returned v else Raised obj"
       and olsd = "\<lambda>obj v. if length v = length obj then Returned v else Raised obj"
       and sd = "\<lambda>w. w" and osd = "\<lambda>w. w" and fs = Map.empty and P = "''ckpt''" and out = "[]"
       and forward = "\<lambda>w s. map2 (*) w s" and state = "[1, 1]"
       and agent = "PPOAgent_init \<lparr>actor = [1 / 4, 3 / 4 :: real], critic = [5]\<rparr> [7 :: real]"
       and fresh = "PPOAgent_init \<lparr>actor = [1 / 2, 1 / 2 :: real], critic = [0]\<rparr> [0 :: real]"]
  by (simp add: PPOAgent_init_def get_actor_dist_def)

text \<open>
  C4 (code). Saving under a base path \<open>P\<close> into an empty directory leaves exactly the files
  \<open>P.actor\<close>, \<open>P.value\<close> and \<open>P.optimizer\<close>: the critic is written to \<open>P.value\<close>
  and there is no \<open>P.critic\<close>. \<^verbatim>\<open>load\<close> looks for \<open>P.critic\<close>, so loading what was just
  saved leaves the critic of the loading agent as it was.
\<close>

theorem C4_save_writes_value_not_critic:
  "dom (PPOAgent_save sd osd Map.empty agent P) = {P @ ''.actor'', P @ ''.value'', P @ ''.optimizer''}
   \<and> PPOAgent_save sd osd Map.empty agent P (P @ ''.critic'') = None
   \<and> critic (actor_critic_model
        (fst (PPOAgent_load lsd olsd (PPOAgent_save sd osd Map.empty agent P) out fresh P)))
      = critic (actor_critic_model fresh)"
proof -
  let ?fs = "PPOAgent_save sd osd Map.empty agent P"
  have absent: "?fs (P @ ''.critic'') = None"
    by (simp add: PPOAgent_save_eq)
  have "dom ?fs = {P @ ''.actor'', P @ ''.value'', P @ ''.optimizer''}"
    by (auto simp add: PPOAgent_save_eq)
  moreover have "critic (actor_critic_model (fst (PPOAgent_load lsd olsd ?fs out fresh P)))
      = critic (actor_critic_model fresh)"
    by (simp add: model_after_PPOAgent_load critic_after_ActorCriticModel_load
        load_obj_absent [of ?fs "P @ ''.critic''", OF absent])
  ultimately show ?thesis
    using absent by simp
qed

text \<open>
  C8 (as stated) fails: the actor has the parameters \<^verbatim>\<open>0.weight = [0, 0]\<close> and
  \<^verbatim>\<open>4.weight = [0, 0, 0]\<close>, and the file \<^verbatim>\<open>ckpt.actor\<close> holds a state dict with
  \<^verbatim>\<open>0.weight = [1, 2]\<close> and a \<^verbatim>\<open>4.weight\<close> of another shape. \<^verbatim>\<open>load_state_dict\<close> overwrites
  \<^verbatim>\<open>0.weight\<close> and then raises; \<^verbatim>\<open>_load\<close> prints the failure and returns the network, which
  is no longer the one from before.
\<close>

theorem C8_incompatible_file_counterexample:
  "fst (ActorCriticModel__load Module_load_state_dict
          [''ckpt.actor'' \<mapsto> Pickle [(''0.weight'', [1, 2]), (''4.weight'', [7])]] []
          [(''0.weight'', [0, 0]), (''4.weight'', [0, 0, 0])] ''ckpt.actor'')
     \<noteq> [(''0.weight'', [0, 0]), (''4.weight'', [0, 0, 0])]"
  by (simp add: ActorCriticModel__load_def Module_load_state_dict_def entry_matches_def)

text \<open>
  C8 (amended). Both \<^verbatim>\<open>_load\<close> methods return a value on every path, so nothing is
  raised. For a path \<open>p1\<close> that does not exist they return the object as it is and print
  nothing. For a file \<open>p2\<close> that \<^verbatim>\<open>torch.load\<close> rejects they return the object as it is
  and print the file name followed by \<^verbatim>\<open> >> failed!\<close>. For a file \<open>p3\<close> (\<open>p4\<close>) whose
  content \<^verbatim>\<open>load_state_dict\<close> rejects they print the same and return the object as the
  failed \<^verbatim>\<open>load_state_dict\<close> left it.
\<close>

theorem C8_load_tolerates_missing_and_incompatible:
  "(fs p1 = None \<longrightarrow>
      ActorCriticModel__load lsd fs out obj p1 = (obj, out)
      \<and> PPOAgent__load olsd fs out opt p1 = (opt, out))
   \<and> (fs p2 = Some Corrupt \<longrightarrow>
      ActorCriticModel__load lsd fs out obj p2 = (obj, out @ ['' >>  '' @ p2, '' >> failed!''])
      \<and> PPOAgent__load olsd fs out opt p2 = (opt, out @ ['' >>  '' @ p2, '' >> failed!'']))
   \<and> (fs p3 = Some (Pickle v) \<and> lsd obj v = Raised obj' \<longrightarrow>
      ActorCriticModel__load lsd fs out obj p3 = (obj', out @ ['' >>  '' @ p3, '' >> failed!'']))
   \<and> (fs p4 = Some (Pickle w) \<and> olsd opt w = Raised opt' \<longrightarrow>
      PPOAgent__load olsd fs out opt p4 = (opt', out @ ['' >>  '' @ p4, '' >> failed!'']))"
  by (simp add: ActorCriticModel__load_def PPOAgent__load_def)

theorem C8_load_tolerates_missing_and_incompatible_witness:
  "[''a.actor'' \<mapsto> Corrupt,
    ''b.actor'' \<mapsto> Pickle [(''0.weight'', [1, 2 :: real]), (''4.weight'', [7])]] ''c.actor'' = None
   \<and> [''a.actor'' \<mapsto> Corrupt,
       ''b.actor'' \<mapsto> Pickle [(''0.weight'', [1, 2 :: real]), (''4.weight'', [7])]] ''a.actor''
      = Some Corrupt
   \<and> [''a.actor'' \<mapsto> Corrupt,
       ''b.actor'' \<mapsto> Pickle [(''0.weight'', [1, 2 :: real]), (''4.weight'', [7])]] ''b.actor''
      = Some (Pickle [(''0.weight'', [1, 2]), (''4.weight'', [7])])
   \<and> Module_load_state_dict [(''0.weight'', [0, 0]), (''4.weight'', [0, 0, 0])]
        [(''0.weight'', [1, 2]), (''4.weight'', [7])]
      = Raised [(''0.weight'', [1, 2]), (''4.weight'', [0, 0, 0])]
   \<and> (\<lambda>opt w. if length w = length opt then Returned opt else Raised opt) [0 :: real]
        [(''0.weight'', [1, 2 :: real]), (''4.weight'', [7])]
      = Raised [0]
   \<and> ActorCriticModel__load Module_load_state_dict
        [''a.actor'' \<mapsto> Corrupt,
         ''b.actor'' \<mapsto> Pickle [(''0.weight'', [1, 2]), (''4.weight'', [7])]] []
        [(''0.weight'', [0, 0]), (''4.weight'', [0, 0, 0])] ''c.actor''
       = ([(''0.weight'', [0, 0]), (''4.weight'', [0, 0, 0])], [])
   \<and> PPOAgent__load (\<lambda>opt w. if length w = length opt then Returned opt else Raised opt)
        [''a.actor'' \<mapsto> Corrupt,
         ''b.actor'' \<mapsto> Pickle [(''0.weight'', [1, 2 :: real]), (''4.weight'', [7])]] []
        [0 :: real] ''a.actor''
       = ([0], ['' >>  a.actor'', '' >> failed!''])
   \<and> ActorCriticModel__load Module_load_state_dict
        [''a.actor'' \<mapsto> Corrupt,
         ''b.actor'' \<mapsto> Pickle [(''0.weight'', [1, 2]), (''4.weight'', [7])]] []
        [(''0.weight'', [0, 0]), (''4.weight'', [0, 0, 0])] ''b.actor''
       = ([(''0.weight'', [1, 2]), (''4.weight'', [0, 0, 0])], ['' >>  b.actor'', '' >> failed!''])
   \<and> PPOAgent__load (\<lambda>opt w. if length w = length opt then Returned opt else Raised opt)
        [''a.actor'' \<mapsto> Corrupt,
         ''b.actor'' \<mapsto> Pickle [(''0.weight'', [1, 2 :: real]), (''4.weight'', [7])]] []
        [0 :: real] ''b.actor''
       = ([0], ['' >>  b.actor'', '' >> failed!''])"
  using C8_load_tolerates_missing_and_incompatible
    [where fs = "[''a.actor'' \<mapsto> Corrupt,
                  ''b.actor'' \<mapsto> Pickle [(''0.weight'', [1, 2]), (''4.weight'', [7])]]"
       and ?p1.0 = "''c.actor''" and ?p2.0 = "''a.actor''" and ?p3.0 = "''b.actor''"
       and ?p4.0 = "''b.actor''" and out = "[]"
       and lsd = Module_load_state_dict
       and obj = "[(''0.weight'', [0, 0]), (''4.weight'', [0, 0, 0])]"
       and obj' = "[(''0.weight'', [1, 2]), (''4.weight'', [0, 0, 0])]"
       and v = "[(''0.weight'', [1, 2]), (''4.weight'', [7])]"
       and w = "[(''0.weight'', [1, 2]), (''4.weight'', [7])]"
       and olsd = "\<lambda>opt w. if length w = length opt then Returned opt else Raised opt"
       and opt = "[0 :: real]" and opt' = "[0 :: real]"]
  by (simp add: Module_load_state_dict_def entry_matches_def)

section \<open>Policy composition\<close>

lemma foldl_append_each: "foldl (\<lambda>acc x. acc @ [f x]) st xs = st @ map f xs"
  by (induction xs arbitrary: st) simp_all

lemma extend_state_eq:
  "extend_state n a st = st @ map (\<lambda>i. if a = int i then 1 else 0) [0..<n]"
  by (simp add: extend_state_def foldl_map foldl_append_each)

lemma filter_eq_upt: "k < n \<Longrightarrow> filter (\<lambda>i. i = k) [0..<n] = [k]"
proof (induction n)
  case 0
  then show ?case by simp
next
  case (Suc n)
  show ?case
  proof (cases "k = n")
    case True
    have "filter (\<lambda>i. i = n) [0..<n] = []"
      by (simp add: filter_empty_conv)
    with True show ?thesis by simp
  next
    case False
    with Suc show ?thesis by simp
  qed
qed

lemma one_hot_count:
  assumes "0 \<le> a" and "a < int n"
  shows "length (filter (\<lambda>x. x = (1::real)) (map (\<lambda>i. if a = int i then 1 else 0) [0..<n])) = 1"
proof -
  have eq: "(\<lambda>i. (if a = int i then 1 else (0::real)) = 1) = (\<lambda>i. i = nat a)"
    using assms by (auto simp add: fun_eq_iff)
  have "filter (\<lambda>x. x = (1::real)) (map (\<lambda>i. if a = int i then 1 else 0) [0..<n])
          = map (\<lambda>i. if a = int i then 1 else 0) (filter (\<lambda>i. i = nat a) [0..<n])"
    by (simp add: filter_map comp_def eq)
  also have "filter (\<lambda>i. i = nat a) [0..<n] = [nat a]"
    using assms by (intro filter_eq_upt) simp
  finally show ?thesis by simp
qed

text \<open>
  An advisor action outside \<open>0..<action_size\<close> compares unequal to every
  \<^verbatim>\<open>action_itr\<close>, and all appended entries are 0.
\<close>

lemma one_hot_all_zero:
  assumes "a < 0 \<or> int n \<le> a" and "i < n"
  shows "extend_state n a st ! (length st + i) = 0"
  using assms by (auto simp add: extend_state_eq nth_append)

text \<open>
  C6. Let the raw state have length \<^verbatim>\<open>state_size\<close> and let the advisor's suggestion \<open>a\<close>
  for it (asked with exploration rate 0) be an action, \<open>0 \<le> a < action_size\<close>.
  \<^verbatim>\<open>MultiPolicy.act\<close> returns what the PPO core's \<^verbatim>\<open>act\<close> returns on the extended state; the
  extended state has length \<^verbatim>\<open>state_size + action_size\<close>, starts with the raw state, has 1
  at position \<open>state_size + a\<close> and 0 at the other appended positions, so exactly one of
  the appended entries is 1.
\<close>

theorem C6_augmented_state:
  assumes "length st = state_size mp"
    and "adv_act (deadlock_avoidance_policy mp) h st 0 = (a, adv')"
    and "0 \<le> a" and "a < int (action_size mp)"
  shows "fst (MultiPolicy_act adv_act ppo_act ppo_loss mp h st eps)
           = fst (ppo_act (ppo_policy mp) h (extend_state (action_size mp) a st) eps)
         \<and> length (extend_state (action_size mp) a st) = state_size mp + action_size mp
         \<and> take (state_size mp) (extend_state (action_size mp) a st) = st
         \<and> (\<forall>i<action_size mp. extend_state (action_size mp) a st ! (state_size mp + i)
               = (if int i = a then 1 else 0))
         \<and> length (filter (\<lambda>x. x = 1) (drop (state_size mp) (extend_state (action_size mp) a st))) = 1"
proof -
  have call: "fst (MultiPolicy_act adv_act ppo_act ppo_loss mp h st eps)
           = fst (ppo_act (ppo_policy mp) h (extend_state (action_size mp) a st) eps)"
    using assms(2) by (simp add: MultiPolicy_act_def Let_def split: prod.splits)
  have len: "length (extend_state (action_size mp) a st) = state_size mp + action_size mp"
    using assms(1) by (simp add: extend_state_eq)
  have pre: "take (state_size mp) (extend_state (action_size mp) a st) = st"
    using assms(1) by (simp add: extend_state_eq)
  have hot: "\<forall>i<action_size mp. extend_state (action_size mp) a st ! (state_size mp + i)
               = (if int i = a then 1 else 0)"
    using assms(1) by (auto simp add: extend_state_eq nth_append)
  have one: "length (filter (\<lambda>x. x = 1) (drop (state_size mp) (extend_state (action_size mp) a st))) = 1"
    using assms(1) one_hot_count [OF assms(3,4)] by (simp add: extend_state_eq)
  from call len pre hot one show ?thesis by blast
qed

theorem C6_augmented_state_witness:
  "length [1 / 2, 1 / 4 :: real]
     = state_size \<lparr>state_size = 2, action_size = 3, mp_memory = [], mp_loss = 0,
                    deadlock_avoidance_policy = (), ppo_policy = ()\<rparr>
   \<and> (\<lambda>adv h s e. (1 :: int, adv)) () 0 [1 / 2, 1 / 4 :: real] (0 :: real) = (1, ())
   \<and> (0 :: int) \<le> 1 \<and> (1 :: int) < int 3
   \<and> extend_state 3 1 [1 / 2, 1 / 4] = [1 / 2, 1 / 4, 0, 1, 0]
   \<and> fst (MultiPolicy_act (\<lambda>adv h s e. (1, adv)) (\<lambda>ppo h s e. (int (length s), ppo)) (\<lambda>ppo. 0)
        \<lparr>state_size = 2, action_size = 3, mp_memory = [], mp_loss = 0,
          deadlock_avoidance_policy = (), ppo_policy = ()\<rparr> 0 [1 / 2, 1 / 4] 0) = 5
   \<and> length (filter (\<lambda>x. x = 1) (drop 2 (extend_state 3 1 [1 / 2, 1 / 4]))) = 1"
  using C6_augmented_state
    [where st = "[1 / 2, 1 / 4]" and h = 0 and a = 1 and adv' = "()" and eps = 0
       and adv_act = "\<lambda>adv h s e. (1, adv)" and ppo_act = "\<lambda>ppo h s e. (int (length s), ppo)"
       and ppo_loss = "\<lambda>ppo. 0"
       and mp = "\<lparr>state_size = 2, action_size = 3, mp_memory = [], mp_loss = 0,
                    deadlock_avoidance_policy = (), ppo_policy = ()\<rparr>"]
  by (simp add: extend_state_def upt_rec)

text \<open>
  C7 (as stated) fails: \<^verbatim>\<open>MultiPolicy.load\<close> does not call the advisor first. On the program
  state that records the calls, the calls of \<^verbatim>\<open>load("ckpt")\<close> are not the advisor's
  \<^verbatim>\<open>load\<close> followed by the PPO core's.
\<close>

theorem C7_load_order_counterexample:
  "MultiPolicy_load record_call ''ckpt'' []
     \<noteq> [(Deadlock_Avoidance_Policy, Load ''ckpt''), (Ppo_Policy, Load ''ckpt'')]"
  by (simp add: MultiPolicy_load_def record_call_def)

text \<open>
  C7 (amended). Each of the six operations calls the same operation on both sub-policies,
  once each and in a fixed order: \<^verbatim>\<open>load\<close>, \<^verbatim>\<open>save\<close>, \<^verbatim>\<open>reset\<close> and \<^verbatim>\<open>test\<close> call the
  PPO core first and the advisor second; \<^verbatim>\<open>start_step\<close> and \<^verbatim>\<open>end_step\<close> call the advisor
  first and the PPO core second.
\<close>

theorem C7_broadcast_orders:
  "MultiPolicy_load record_call filename calls
     = calls @ [(Ppo_Policy, Load filename), (Deadlock_Avoidance_Policy, Load filename)]
   \<and> MultiPolicy_save record_call filename calls
     = calls @ [(Ppo_Policy, Save filename), (Deadlock_Avoidance_Policy, Save filename)]
   \<and> MultiPolicy_reset record_call calls
     = calls @ [(Ppo_Policy, Reset), (Deadlock_Avoidance_Policy, Reset)]
   \<and> MultiPolicy_test record_call calls
     = calls @ [(Ppo_Policy, Test), (Deadlock_Avoidance_Policy, Test)]
   \<and> MultiPolicy_start_step record_call train calls
     = calls @ [(Deadlock_Avoidance_Policy, Start_Step train), (Ppo_Policy, Start_Step train)]
   \<and> MultiPolicy_end_step record_call train calls
     = calls @ [(Deadlock_Avoidance_Policy, End_Step train), (Ppo_Policy, End_Step train)]"
  by (simp add: MultiPolicy_load_def MultiPolicy_save_def MultiPolicy_reset_def MultiPolicy_test_def
      MultiPolicy_start_step_def MultiPolicy_end_step_def record_call_def)

text \<open>
  C10. \<^verbatim>\<open>MultiPolicy.act\<close> returns the PPO core's action and assigns one field of its own,
  the loss, which becomes the PPO core's loss as it is after the core's \<^verbatim>\<open>act\<close>. The two
  sub-policy objects are as their own \<^verbatim>\<open>act\<close> calls left them; when those calls leave them
  as they were, the composition layer after the call is the one before it with the loss
  field replaced, every other field (sizes, memory, sub-policies) being the same.
\<close>

theorem C10_act_frame:
  assumes "adv_act (deadlock_avoidance_policy mp) h st 0 = (a, adv')"
    and "ppo_act (ppo_policy mp) h (extend_state (action_size mp) a st) eps = (action, ppo')"
  shows "MultiPolicy_act adv_act ppo_act ppo_loss mp h st eps
           = (action, mp\<lparr>deadlock_avoidance_policy := adv', ppo_policy := ppo', mp_loss := ppo_loss ppo'\<rparr>)
         \<and> (adv' = deadlock_avoidance_policy mp \<and> ppo' = ppo_policy mp \<longrightarrow>
              MultiPolicy_act adv_act ppo_act ppo_loss mp h st eps
                = (action, mp\<lparr>mp_loss := ppo_loss (ppo_policy mp)\<rparr>))"
  using assms by (auto simp add: MultiPolicy_act_def Let_def)

theorem C10_act_frame_witness:
  "(\<lambda>adv h s e. (1 :: int, adv)) () 4 [1 / 2, 1 / 4 :: real] (0 :: real) = (1, ())
   \<and> (\<lambda>ppo h s e. (2 :: int, ppo)) (3 / 4 :: real) 4 (extend_state 3 1 [1 / 2, 1 / 4]) (1 / 10 :: real)
        = (2, 3 / 4)
   \<and> MultiPolicy_act (\<lambda>adv h s e. (1, adv)) (\<lambda>ppo h s e. (2, ppo)) (\<lambda>ppo. ppo)
        \<lparr>state_size = 2, action_size = 3, mp_memory = [], mp_loss = 0,
          deadlock_avoidance_policy = (), ppo_policy = 3 / 4\<rparr> 4 [1 / 2, 1 / 4] (1 / 10)
      = (2, \<lparr>state_size = 2, action_size = 3, mp_memory = [], mp_loss = 3 / 4,
              deadlock_avoidance_policy = (), ppo_policy = 3 / 4\<rparr>)"
  using C10_act_frame
    [where st = "[1 / 2, 1 / 4]" and h = 4 and a = 1 and adv' = "()" and eps = "1 / 10"
       and action = 2 and ppo' = "3 / 4"
       and adv_act = "\<lambda>adv h s e. (1, adv)" and ppo_act = "\<lambda>ppo h s e. (2, ppo)"
       and ppo_loss = "\<lambda>ppo. ppo"
       and mp = "\<lparr>state_size = 2, action_size = 3, mp_memory = [], mp_loss = 0,
                    deadlock_avoidance_policy = (), ppo_policy = 3 / 4\<rparr>"]
  by simp

end
